theory Spec2Isabelle
  imports Complex_Main
begin

section \<open>Python values used by model_helper.py\<close>

text \<open>
  The exceptions that the functions of \<^verbatim>\<open>model_helper.py\<close> can raise, by kind:
  a missing or unreadable file, a state dictionary that does not fit the network,
  a dictionary key that is absent, an index out of range, a division by zero, and a
  tensor operation applied outside its range.
\<close>

datatype error = IOError | LoadError | KeyError | IndexError | ZeroDivisionError | RuntimeError

text \<open>
  A Python \<^verbatim>\<open>dict\<close> is an association list in insertion order whose keys are
  distinct. Reading an absent key raises \<^verbatim>\<open>KeyError\<close>; storing under a key that is
  present replaces the value where it stands, storing under a new key appends.
\<close>

type_synonym ('k, 'v) dict = "('k \<times> 'v) list"

fun dict_get :: "('k, 'v) dict \<Rightarrow> 'k \<Rightarrow> error + 'v" where
  "dict_get [] k = Inl KeyError"
| "dict_get ((k', v) # d) k = (if k' = k then Inr v else dict_get d k)"

fun dict_set :: "('k, 'v) dict \<Rightarrow> 'k \<Rightarrow> 'v \<Rightarrow> ('k, 'v) dict" where
  "dict_set [] k v = [(k, v)]"
| "dict_set ((k', v') # d) k v =
     (if k' = k then (k', v) # d else (k', v') # dict_set d k v)"

definition dict_keys :: "('k, 'v) dict \<Rightarrow> 'k list" where
  "dict_keys d = map fst d"

definition dict_values :: "('k, 'v) dict \<Rightarrow> 'v list" where
  "dict_values d = map snd d"

text \<open>
  The comprehension \<^verbatim>\<open>{class_to_idx[k]: k for k in class_to_idx}\<close> of
  \<^verbatim>\<open>create_model\<close>: the items are visited in insertion order and each one is
  stored under its value, a later item overwriting an earlier one with the same value.
\<close>

definition swap_items :: "('k, 'v) dict \<Rightarrow> ('v, 'k) dict" where
  "swap_items d = foldl (\<lambda>acc (k, v). dict_set acc v k) [] d"

section \<open>Networks, models and optimizers\<close>

text \<open>
  The layers of the classifier head, with the sizes the source gives them:
  \<^verbatim>\<open>nn.Linear(in, out)\<close>, \<^verbatim>\<open>nn.ReLU()\<close> and \<^verbatim>\<open>nn.LogSoftmax(dim)\<close>.
\<close>

datatype layer = Linear nat nat | ReLU | LogSoftmax nat

datatype criterion = NLLLoss

text \<open>
  An \<^verbatim>\<open>nn.Module\<close> as this program sees it: its state dictionary (tensors by name,
  type \<open>'t\<close> left open), the names of the parameters with \<^verbatim>\<open>requires_grad = True\<close>,
  the named layers of its \<^verbatim>\<open>classifier\<close> attribute, and the training-mode flag.
  A model is a network together with the \<^verbatim>\<open>class_to_idx\<close> attribute that
  \<^verbatim>\<open>create_model\<close> and \<^verbatim>\<open>load_checkpoint\<close> attach to it.
\<close>

record 't network =
  state :: "(string, 't) dict"
  trainable :: "string list"
  classifier :: "(string \<times> layer) list"
  training :: bool

record ('t, 'l) model =
  net :: "'t network"
  class_to_idx :: "(nat, 'l) dict"

text \<open>
  \<^verbatim>\<open>optim.Adam(parameters, lr)\<close>: the names of the parameters it was given, the
  learning rate, and the running statistics it keeps per parameter (none before the
  first step).
\<close>

record ('a, 'm) optimizer =
  opt_params :: "string list"
  lr :: 'a
  opt_state :: "(string, 'm) dict"

text \<open>
  What the program takes from torch, torchvision, PIL and the module \<^verbatim>\<open>utility\<close>,
  as one record of values and functions over open types: \<open>'t\<close> weight tensors,
  \<open>'x\<close> input tensors, \<open>'a\<close> scalars, \<open>'m\<close> optimizer statistics, \<open>'img\<close>
  decoded images. Every definition below takes this record as its first argument, and
  every theorem holds for each value of it unless a hypothesis says otherwise.
  Scalars are Python and torch floats read as numbers of a linearly ordered field.
  A forward pass is a function of the network and the input; the running statistics
  that normalisation layers refresh during a training-mode pass are not modelled.
\<close>

record ('t, 'x, 'a, 'm, 'img) torch =
  densenet121 :: "'t network"
    \<comment> \<open>\<^verbatim>\<open>models.densenet121(pretrained=True)\<close>\<close>
  init_linear :: "nat \<Rightarrow> nat \<Rightarrow> 't \<times> 't"
    \<comment> \<open>weight and bias that \<^verbatim>\<open>nn.Linear(in, out)\<close> starts from\<close>
  shape :: "'t \<Rightarrow> nat list"
  forward :: "(string, 't) dict \<Rightarrow> (string \<times> layer) list \<Rightarrow> bool \<Rightarrow> 'x \<Rightarrow> 'a list list"
    \<comment> \<open>\<^verbatim>\<open>model.forward(inputs)\<close> from the state, the classifier layers and the mode:
        one row of log-probabilities per example\<close>
  loss_fn :: "criterion \<Rightarrow> 'a list list \<Rightarrow> nat list \<Rightarrow> 'a"
    \<comment> \<open>\<^verbatim>\<open>criterion(output, labels).data[0]\<close>\<close>
  backward :: "'t network \<Rightarrow> criterion \<Rightarrow> 'x \<Rightarrow> nat list \<Rightarrow> (string, 't) dict"
    \<comment> \<open>gradients that \<^verbatim>\<open>loss.backward()\<close> leaves on the trainable parameters\<close>
  adam_update :: "'a \<Rightarrow> 'm option \<Rightarrow> 't \<Rightarrow> 't \<Rightarrow> 't \<times> 'm"
    \<comment> \<open>one Adam update of one parameter: rate, old statistics, value, gradient\<close>
  exp_fn :: "'a \<Rightarrow> 'a"
  cuda :: "'x \<Rightarrow> 'x"
    \<comment> \<open>\<^verbatim>\<open>tensor.float().cuda()\<close>\<close>
  unsqueeze :: "'x \<Rightarrow> 'x"
  process_image :: "'img \<Rightarrow> 'x"
    \<comment> \<open>\<^verbatim>\<open>torch.from_numpy(utility.process_image(image))\<close>\<close>

section \<open>create\_model\<close>

definition has_prefix :: "string \<Rightarrow> string \<Rightarrow> bool" where
  "has_prefix p s = (take (length p) s = p)"

text \<open>
  The state entries that a \<^verbatim>\<open>nn.Sequential\<close> of named layers contributes when it is
  the attribute \<^verbatim>\<open>classifier\<close>: a weight and a bias for each linear layer.
\<close>

fun layer_entries ::
  "('t, 'x, 'a, 'm, 'img) torch \<Rightarrow> string \<times> layer \<Rightarrow> (string, 't) dict" where
  "layer_entries T (n, Linear i out) =
     [(''classifier.'' @ n @ ''.weight'', fst (init_linear T i out)),
      (''classifier.'' @ n @ ''.bias'', snd (init_linear T i out))]"
| "layer_entries T (n, ReLU) = []"
| "layer_entries T (n, LogSoftmax d) = []"

definition head_entries ::
  "('t, 'x, 'a, 'm, 'img) torch \<Rightarrow> (string \<times> layer) list \<Rightarrow> (string, 't) dict" where
  "head_entries T ls = concat (map (layer_entries T) ls)"

text \<open>
  \<^verbatim>\<open>model.classifier = classifier\<close>: the tensors of the old classifier leave the state,
  those of the new one enter it, and the new parameters require gradients.
\<close>

definition set_classifier ::
  "('t, 'x, 'a, 'm, 'img) torch \<Rightarrow> 't network \<Rightarrow> (string \<times> layer) list \<Rightarrow> 't network" where
  "set_classifier T n ls =
     n\<lparr>state := filter (\<lambda>(k, v). \<not> has_prefix ''classifier.'' k) (state n) @ head_entries T ls,
       trainable := filter (\<lambda>k. \<not> has_prefix ''classifier.'' k) (trainable n)
                    @ dict_keys (head_entries T ls),
       classifier := ls\<rparr>"

definition head :: "nat \<Rightarrow> (string \<times> layer) list" where
  "head output_size =
     [(''fc1'', Linear 1024 500), (''relu'', ReLU),
      (''fc2'', Linear 500 output_size), (''output'', LogSoftmax 1)]"


definition create_model ::
  "('t, 'x, 'a::linordered_field, 'm, 'img) torch \<Rightarrow> string \<Rightarrow> ('l, nat) dict
     \<Rightarrow> ('t, 'l) model \<times> ('a, 'm) optimizer \<times> criterion" where
  "create_model T arch class_to_idx' =
     (let model = densenet121 T;
          model = model\<lparr>trainable := []\<rparr>;
          output_size = 102;
          model = set_classifier T model (head output_size);
          parameters = trainable model;
          optimizer = \<lparr>opt_params = parameters, lr = 1 / 1000, opt_state = []\<rparr>;
          criterion = NLLLoss
      in (\<lparr>net = model, class_to_idx = swap_items class_to_idx'\<rparr>, optimizer, criterion))"

definition model_forward :: "('t, 'x, 'a, 'm, 'img) torch \<Rightarrow> 't network \<Rightarrow> 'x \<Rightarrow> 'a list list" where
  "model_forward T n inputs = forward T (state n) (classifier n) (training n) inputs"

text \<open>\<^verbatim>\<open>model.eval()\<close> and \<^verbatim>\<open>model.train()\<close> set the mode flag and nothing else.\<close>

definition eval_mode :: "('t, 'l) model \<Rightarrow> ('t, 'l) model" where
  "eval_mode model = model\<lparr>net := (net model)\<lparr>training := False\<rparr>\<rparr>"

definition train_mode :: "('t, 'l) model \<Rightarrow> ('t, 'l) model" where
  "train_mode model = model\<lparr>net := (net model)\<lparr>training := True\<rparr>\<rparr>"

section \<open>Checkpoints\<close>



datatype 'a line =
  CheckpointSaved string string int
| CheckpointLoaded string string int
| Progress int int 'a 'a 'a






text \<open>
  A state dictionary fits a network's own state when it has the same names in the same
  order, each once, and tensors of the same shapes.
\<close>

definition fits :: "('t, 'x, 'a, 'm, 'img) torch \<Rightarrow> (string, 't) dict \<Rightarrow> (string, 't) dict \<Rightarrow> bool" where
  "fits T own sd \<longleftrightarrow>
     dict_keys sd = dict_keys own \<and> distinct (dict_keys own)
     \<and> map (\<lambda>(k, v). shape T v) sd = map (\<lambda>(k, v). shape T v) own"

section \<open>validate\<close>

text \<open>
  \<^verbatim>\<open>ps.max(1)[1]\<close>: for each row the index of its greatest entry (the first one, where
  several are greatest). \<^verbatim>\<open>tensor.mean()\<close> is the sum over the number of entries.
\<close>

fun argmax :: "'a::linorder list \<Rightarrow> nat" where
  "argmax [] = 0"
| "argmax [x] = 0"
| "argmax (x # y # ys) =
     (let j = argmax (y # ys) in if x < (y # ys) ! j then Suc j else 0)"

definition mean :: "'a::field list \<Rightarrow> 'a" where
  "mean xs = sum_list xs / of_nat (length xs)"

text \<open>A data loader is the list of its batches: an input tensor and the labels of its examples.\<close>

type_synonym 'x loader = "('x \<times> nat list) list"

definition predicted_classes ::
  "('t, 'x, 'a::linordered_field, 'm, 'img) torch \<Rightarrow> 'a list list \<Rightarrow> nat list" where
  "predicted_classes T output = map argmax (map (map (exp_fn T)) output)"

fun validate_batches ::
  "('t, 'x, 'a::linordered_field, 'm, 'img) torch \<Rightarrow> 't network \<Rightarrow> criterion \<Rightarrow> bool
     \<Rightarrow> 'x loader \<Rightarrow> 'a \<times> 'a \<Rightarrow> 'a \<times> 'a" where
  "validate_batches T n criterion use_gpu [] (test_loss, accuracy) = (test_loss, accuracy)"
| "validate_batches T n criterion use_gpu ((inputs, labels) # batches) (test_loss, accuracy) =
     (let inputs = (if use_gpu then cuda T inputs else inputs);
          output = model_forward T n inputs;
          test_loss = test_loss + loss_fn T criterion output labels;
          equality = map2 (=) labels (predicted_classes T output);
          accuracy = accuracy + mean (map of_bool equality)
      in validate_batches T n criterion use_gpu batches (test_loss, accuracy))"

definition validate ::
  "('t, 'x, 'a::linordered_field, 'm, 'img) torch \<Rightarrow> ('t, 'l) model \<Rightarrow> criterion \<Rightarrow> 'x loader
     \<Rightarrow> bool \<Rightarrow> ('t, 'l) model \<times> (error + 'a \<times> 'a)" where
  "validate T model criterion data_loader use_gpu =
     (let model = eval_mode model;
          (test_loss, accuracy) =
             validate_batches T (net model) criterion use_gpu data_loader (0, 0)
      in (model,
          if length data_loader = 0 then Inl ZeroDivisionError
          else Inr (test_loss / of_nat (length data_loader),
                    accuracy / of_nat (length data_loader))))"

section \<open>train\<close>

text \<open>
  \<^verbatim>\<open>optimizer.step()\<close>: each parameter the optimizer was given that has a gradient is
  updated, together with its running statistics.
\<close>

definition some_of :: "error + 'b \<Rightarrow> 'b option" where
  "some_of r = (case r of Inl e \<Rightarrow> None | Inr v \<Rightarrow> Some v)"

fun step_params ::
  "('t, 'x, 'a, 'm, 'img) torch \<Rightarrow> 'a \<Rightarrow> (string, 't) dict \<Rightarrow> string list
     \<Rightarrow> (string, 't) dict \<times> (string, 'm) dict \<Rightarrow> (string, 't) dict \<times> (string, 'm) dict" where
  "step_params T rate grads [] (st, stats) = (st, stats)"
| "step_params T rate grads (p # ps) (st, stats) =
     (case (dict_get st p, dict_get grads p) of
        (Inr v, Inr g) \<Rightarrow>
          (let (v', s') = adam_update T rate (some_of (dict_get stats p)) v g
           in step_params T rate grads ps (dict_set st p v', dict_set stats p s'))
      | _ \<Rightarrow> step_params T rate grads ps (st, stats))"

definition optimizer_step ::
  "('t, 'x, 'a, 'm, 'img) torch \<Rightarrow> ('t, 'l) model \<Rightarrow> ('a, 'm) optimizer \<Rightarrow> (string, 't) dict
     \<Rightarrow> ('t, 'l) model \<times> ('a, 'm) optimizer" where
  "optimizer_step T model optimizer grads =
     (let (st, stats) = step_params T (lr optimizer) grads (opt_params optimizer)
                          (state (net model), opt_state optimizer)
      in (model\<lparr>net := (net model)\<lparr>state := st\<rparr>\<rparr>, optimizer\<lparr>opt_state := stats\<rparr>))"

record ('t, 'l, 'a, 'm) training_run =
  run_model :: "('t, 'l) model"
  run_optimizer :: "('a, 'm) optimizer"
  steps :: nat
  running_loss :: 'a
  printed :: "'a line list"

text \<open>
  The inner loop of \<^verbatim>\<open>train\<close> over the batches of one epoch. The result carries the
  exception that ended it, if any: only the call of \<^verbatim>\<open>validate\<close> can raise one.
\<close>

fun train_batches ::
  "('t, 'x, 'a::linordered_field, 'm, 'img) torch \<Rightarrow> criterion \<Rightarrow> int \<Rightarrow> int \<Rightarrow> 'x loader \<Rightarrow> bool
     \<Rightarrow> 'x loader \<Rightarrow> ('t, 'l, 'a, 'm) training_run
     \<Rightarrow> ('t, 'l, 'a, 'm) training_run \<times> error option" where
  "train_batches T criterion epoch epochs validation_data_loader use_gpu [] r = (r, None)"
| "train_batches T criterion epoch epochs validation_data_loader use_gpu
     ((inputs, labels) # batches) r =
     (let print_every = 40;
          r = r\<lparr>steps := steps r + 1\<rparr>;
          inputs = (if use_gpu then cuda T inputs else inputs);
          output = model_forward T (net (run_model r)) inputs;
          loss = loss_fn T criterion output labels;
          grads = backward T (net (run_model r)) criterion inputs labels;
          (model, optimizer) = optimizer_step T (run_model r) (run_optimizer r) grads;
          r = r\<lparr>run_model := model, run_optimizer := optimizer,
                running_loss := running_loss r + loss\<rparr>
      in if steps r mod print_every = 0
         then (case validate T (run_model r) criterion validation_data_loader use_gpu of
                 (model, Inl e) \<Rightarrow> (r\<lparr>run_model := model\<rparr>, Some e)
               | (model, Inr (test_loss, accuracy)) \<Rightarrow>
                   train_batches T criterion epoch epochs validation_data_loader use_gpu batches
                     (r\<lparr>run_model := train_mode model,
                        running_loss := 0,
                        printed := printed r
                          @ [Progress (epoch + 1) epochs
                               (running_loss r / of_nat print_every) test_loss accuracy]\<rparr>))
         else train_batches T criterion epoch epochs validation_data_loader use_gpu batches r)"

fun train_epochs ::
  "('t, 'x, 'a::linordered_field, 'm, 'img) torch \<Rightarrow> criterion \<Rightarrow> int \<Rightarrow> 'x loader \<Rightarrow> 'x loader
     \<Rightarrow> bool \<Rightarrow> int list \<Rightarrow> ('t, 'l, 'a, 'm) training_run
     \<Rightarrow> ('t, 'l, 'a, 'm) training_run \<times> error option" where
  "train_epochs T criterion epochs training_data_loader validation_data_loader use_gpu [] r =
     (r, None)"
| "train_epochs T criterion epochs training_data_loader validation_data_loader use_gpu
     (epoch # rest) r =
     (case train_batches T criterion epoch epochs validation_data_loader use_gpu
             training_data_loader (r\<lparr>running_loss := 0\<rparr>) of
        (r, Some e) \<Rightarrow> (r, Some e)
      | (r, None) \<Rightarrow>
          train_epochs T criterion epochs training_data_loader validation_data_loader use_gpu
            rest r)"

text \<open>
  \<^verbatim>\<open>train\<close>: the epochs are \<^verbatim>\<open>range(epochs)\<close>. The run starts from the model put
  in training mode, the optimizer, no step taken and the lines printed so far.
\<close>

definition train ::
  "('t, 'x, 'a::linordered_field, 'm, 'img) torch \<Rightarrow> ('t, 'l) model \<Rightarrow> criterion
     \<Rightarrow> ('a, 'm) optimizer \<Rightarrow> int \<Rightarrow> 'x loader \<Rightarrow> 'x loader \<Rightarrow> bool \<Rightarrow> 'a line list
     \<Rightarrow> ('t, 'l, 'a, 'm) training_run \<times> error option" where
  "train T model criterion optimizer epochs training_data_loader validation_data_loader
     use_gpu out =
     train_epochs T criterion epochs training_data_loader validation_data_loader use_gpu
       (map int [0..<nat epochs])
       \<lparr>run_model = train_mode model, run_optimizer = optimizer, steps = 0,
        running_loss = 0, printed = out\<rparr>"

section \<open>predict\<close>




section \<open>A small instance\<close>

text \<open>
  One value of the library record, on which the definitions can be run: tensors are a
  shape and a tag, an input batch is the list of the score rows that the forward pass
  returns for it, scalars are rationals, and an image is the score row it yields.
  Score rows have the 102 entries of the classifier head; exponentiation is the
  identity, so that the scores are the probabilities themselves.
\<close>

definition example_torch :: "(nat list \<times> int, rat list list, rat, nat, rat list) torch" where
  "example_torch =
     \<lparr>densenet121 =
        \<lparr>state = [(''features.conv0.weight'', ([64, 3, 7, 7], 1)),
                  (''features.norm5.running_mean'', ([1024], 2)),
                  (''classifier.weight'', ([1000, 1024], 3)),
                  (''classifier.bias'', ([1000], 4))],
         trainable = [''features.conv0.weight'', ''classifier.weight'', ''classifier.bias''],
         classifier = [(''classifier'', Linear 1024 1000)],
         training = True\<rparr>,
      init_linear = (\<lambda>i out. (([out, i], 0), ([out], 0))),
      shape = fst,
      forward = (\<lambda>st cl tr x. x),
      loss_fn = (\<lambda>c output labels. 0),
      backward = (\<lambda>n c x labels. []),
      adam_update = (\<lambda>rate s v g. (v, 0)),
      exp_fn = (\<lambda>x. x),
      cuda = (\<lambda>x. x),
      unsqueeze = (\<lambda>x. x),
      process_image = (\<lambda>img. [img])\<rparr>"

text \<open>A score row whose greatest entry is at index \<open>i\<close>, and one that rises with the index.\<close>

definition one_hot :: "nat \<Rightarrow> rat list" where
  "one_hot i = map (\<lambda>j. if j = i then 1 else 0) [0..<102]"


text \<open>Label mappings from the label \<open>i + 1\<close> to the index \<open>i\<close>, with 5 and with 102 classes.\<close>

definition five_labels :: "(nat, nat) dict" where
  "five_labels = map (\<lambda>i. (Suc i, i)) [0..<5]"









section \<open>Properties of the label table\<close>

lemma dict_set_fresh: "k \<notin> set (map fst d) \<Longrightarrow> dict_set d k v = d @ [(k, v)]"
  by (induction d) auto

lemma foldl_swap_fresh:
  "distinct (map snd d) \<Longrightarrow> set (map fst acc) \<inter> set (map snd d) = {} \<Longrightarrow>
   foldl (\<lambda>acc (k, v). dict_set acc v k) acc d = acc @ map (\<lambda>(k, v). (v, k)) d"
proof (induction d arbitrary: acc)
  case Nil
  then show ?case by simp
next
  case (Cons kv d)
  obtain k v where kv: "kv = (k, v)" by (cases kv)
  from Cons.prems kv have fresh: "v \<notin> set (map fst acc)" by auto
  from Cons.prems kv have d: "distinct (map snd d)" and v: "v \<notin> set (map snd d)"
    by auto
  from Cons.prems kv v have "set (map fst (acc @ [(v, k)])) \<inter> set (map snd d) = {}"
    by auto
  from Cons.IH [OF d this] show ?case
    by (simp add: kv dict_set_fresh [OF fresh])
qed

lemma swap_items_injective:
  "distinct (map snd d) \<Longrightarrow> swap_items d = map (\<lambda>(k, v). (v, k)) d"
  unfolding swap_items_def using foldl_swap_fresh [of d "[]"] by simp

lemma dict_get_member:
  "distinct (map fst d) \<Longrightarrow> (k, v) \<in> set d \<Longrightarrow> dict_get d k = Inr v"
  by (induction d) (auto simp: rev_image_eqI)

lemma dict_get_Inr: "dict_get d k = Inr v \<Longrightarrow> (k, v) \<in> set d"
  by (induction d) (auto split: if_splits)

lemma create_model_class_to_idx:
  "class_to_idx (fst (create_model T arch M)) = swap_items M"
  by (simp add: create_model_def Let_def)

text \<open>
  C3. When the label mapping \<open>M\<close> is a bijection between raw labels and indices (no
  label and no index occurs twice), the table \<^verbatim>\<open>class_to_idx\<close> stored on the model
  that \<^verbatim>\<open>create_model\<close> returns is the inverse of \<open>M\<close>: its keys are the indices of
  \<open>M\<close>, each index \<open>i\<close> with \<open>M[k] = i\<close> is mapped to \<open>k\<close>, and it maps an index to
  no other label.
\<close>

theorem create_model_inverts_labels:
  assumes "distinct (dict_keys M)" and "distinct (dict_values M)"
  shows "dict_keys (class_to_idx (fst (create_model T arch M))) = dict_values M
    \<and> (\<forall>k i. dict_get M k = Inr i
          \<longrightarrow> dict_get (class_to_idx (fst (create_model T arch M))) i = Inr k)
    \<and> (\<forall>k i. dict_get (class_to_idx (fst (create_model T arch M))) i = Inr k
          \<longrightarrow> dict_get M k = Inr i)"
proof -
  let ?inv = "map (\<lambda>(k, v). (v, k)) M"
  have eq: "class_to_idx (fst (create_model T arch M)) = ?inv"
    using assms(2) by (simp add: create_model_class_to_idx swap_items_injective dict_values_def)
  have keys: "map fst ?inv = map snd M"
    by (induction M) auto
  have mem: "\<And>k i. (i, k) \<in> set ?inv \<longleftrightarrow> (k, i) \<in> set M"
    by auto
  have dinv: "distinct (map fst ?inv)"
    unfolding keys using assms(2) by (simp add: dict_values_def)
  have dM: "distinct (map fst M)"
    using assms(1) by (simp add: dict_keys_def)
  have fwd: "\<And>k i. dict_get M k = Inr i \<Longrightarrow> dict_get ?inv i = Inr k"
    using dict_get_member [OF dinv] dict_get_Inr mem by fast
  have bwd: "\<And>k i. dict_get ?inv i = Inr k \<Longrightarrow> dict_get M k = Inr i"
    using dict_get_member [OF dM] dict_get_Inr mem by fast
  show ?thesis
    unfolding eq dict_keys_def dict_values_def using keys fwd bwd by blast
qed

theorem create_model_inverts_labels_witness:
  "distinct (dict_keys five_labels) \<and> distinct (dict_values five_labels)
   \<and> dict_get five_labels 3 = Inr 2
   \<and> dict_keys (class_to_idx (fst (create_model example_torch ''densenet121'' five_labels)))
       = dict_values five_labels
   \<and> dict_get (class_to_idx (fst (create_model example_torch ''densenet121'' five_labels))) 2
       = Inr 3"
proof -
  have keys: "distinct (dict_keys five_labels)"
    by code_simp
  have vals: "distinct (dict_values five_labels)"
    by code_simp
  have at: "dict_get five_labels 3 = Inr 2"
    by code_simp
  show ?thesis
    using keys vals at
      create_model_inverts_labels [OF keys vals, of example_torch "''densenet121''"]
    by blast
qed

section \<open>Properties of create\_model\<close>

text \<open>
  C4 (as the code has it). \<^verbatim>\<open>create_model\<close> never looks at its argument \<^verbatim>\<open>arch\<close>:
  for every two architecture identifiers it returns the same model, optimizer and
  criterion, built on DenseNet-121. No identifier makes it fail.
\<close>

theorem create_model_ignores_arch:
  "create_model T arch M = create_model T arch' M"
  by (simp add: create_model_def)

text \<open>
  C4 (as stated) fails: for the identifier \<^verbatim>\<open>vgg16\<close>, which is not the supported one,
  \<^verbatim>\<open>create_model\<close> returns a model, the one it returns for \<^verbatim>\<open>densenet121\<close>, whose
  classifier is the head of 102 classes.
\<close>

theorem create_model_unsupported_arch_counterexample:
  "create_model example_torch ''vgg16'' five_labels
     = create_model example_torch ''densenet121'' five_labels
   \<and> classifier (net (fst (create_model example_torch ''vgg16'' five_labels))) = head 102"
  by (simp add: create_model_def set_classifier_def Let_def)




section \<open>Properties of validate and train\<close>

lemma validate_model: "fst (validate T model criterion data_loader use_gpu) = eval_mode model"
  by (simp add: validate_def Let_def split_def)

text \<open>
  C6. For every model, criterion, data loader and device flag, the model that
  \<^verbatim>\<open>validate\<close> leaves behind has the state dictionary it had before the call (every
  parameter, trainable or not, with its value) and the same trainable parameters;
  only the mode flag is set to evaluation.
\<close>

theorem validate_keeps_parameters:
  "state (net (fst (validate T model criterion data_loader use_gpu))) = state (net model)
   \<and> trainable (net (fst (validate T model criterion data_loader use_gpu)))
       = trainable (net model)
   \<and> fst (validate T model criterion data_loader use_gpu)
       = model\<lparr>net := (net model)\<lparr>training := False\<rparr>\<rparr>"
  by (simp add: validate_model eval_mode_def)

text \<open>
  C10. With a validation data loader of 0 batches \<^verbatim>\<open>validate\<close> returns no pair of
  loss and accuracy: the division by the number of batches raises
  \<^verbatim>\<open>ZeroDivisionError\<close>, after the model was put in evaluation mode.
\<close>

theorem validate_no_batches:
  "validate T model criterion [] use_gpu = (eval_mode model, Inl ZeroDivisionError)"
  by (simp add: validate_def)

lemma train_epochs_no_batches:
  "running_loss r = 0 \<Longrightarrow>
   train_epochs T criterion epochs [] validation_data_loader use_gpu es r = (r, None)"
proof (induction es)
  case Nil
  show ?case by simp
next
  case (Cons epoch es)
  from Cons.prems have eq: "r\<lparr>running_loss := 0\<rparr> = r"
    by simp
  have "train_epochs T criterion epochs [] validation_data_loader use_gpu (epoch # es) r
          = train_epochs T criterion epochs [] validation_data_loader use_gpu es r"
    by (simp only: train_epochs.simps train_batches.simps eq prod.case option.case)
  with Cons show ?case by simp
qed

text \<open>
  C9. With a training data loader of 0 batches \<^verbatim>\<open>train\<close> ends without an exception
  for every model, criterion, optimizer, epoch count, validation loader and device
  flag; no step is counted, the optimizer is as it was, nothing is printed, and the
  model differs from the one passed in by the mode flag only, so its state dictionary
  is unchanged.
\<close>

theorem train_no_batches:
  "train T model criterion optimizer epochs [] validation_data_loader use_gpu out
     = (\<lparr>run_model = train_mode model, run_optimizer = optimizer, steps = 0,
         running_loss = 0, printed = out\<rparr>, None)
   \<and> state (net (train_mode model)) = state (net model)
   \<and> trainable (net (train_mode model)) = trainable (net model)"
  by (simp add: train_def train_epochs_no_batches train_mode_def)

section \<open>Properties of checkpoints\<close>








lemma head_keys_prefixed:
  "k \<in> set (dict_keys (head_entries T (head n))) \<Longrightarrow> has_prefix ''classifier.'' k"
  by (auto simp: head_entries_def head_def dict_keys_def has_prefix_def)

lemma create_model_fits:
  assumes "distinct (dict_keys (state (densenet121 T)))"
  shows "fits T (state (set_classifier T (densenet121 T) (head 102)))
           (state (net (fst (create_model T arch M))))"
proof -
  let ?kept = "filter (\<lambda>(k, v). \<not> has_prefix ''classifier.'' k) (state (densenet121 T))"
  have same: "state (net (fst (create_model T arch M)))
                = state (set_classifier T (densenet121 T) (head 102))"
    by (simp add: create_model_def Let_def set_classifier_def)
  have kept: "distinct (map fst ?kept)"
    using assms by (simp add: dict_keys_def distinct_map_filter)
  have new: "distinct (dict_keys (head_entries T (head 102)))"
    by (simp add: head_entries_def head_def dict_keys_def)
  have apart: "set (map fst ?kept) \<inter> set (dict_keys (head_entries T (head 102))) = {}"
    using head_keys_prefixed [of _ T 102] by auto
  have "distinct (dict_keys (state (set_classifier T (densenet121 T) (head 102))))"
    using kept new apart by (simp add: set_classifier_def dict_keys_def)
  then show ?thesis
    by (simp add: fits_def same)
qed







section \<open>Properties of predict\<close>







end
